theory Spec2Isabelle
  imports Main
begin

section \<open>The knowledge item route (frontend/app/api/knowledge/[id]/route.ts)\<close>

subsection \<open>Values\<close>

text \<open>
  The request body and the knowledge file are JSON texts, read into JavaScript values.
  \<open>JUndefined\<close> is what reading a property gives when the object has none of that
  name; \<open>JSON.stringify\<close> leaves a property holding it out, and reading the file back
  gives \<open>JUndefined\<close> for it again, so writing and reading a list of items is the
  identity on the values below.

  A JavaScript string is a sequence of UTF-16 code units; \<open>string\<close> holds the code units
  below 256 only. Numbers are opaque here (no arithmetic is done on them).
\<close>

datatype jsval =
    JUndefined
  | JNull
  | JBool bool
  | JNum int
  | JStr string
  | JArr "jsval list"
  | JObj "(string \<times> jsval) list"

text \<open>
  \<open>interface Knowledge\<close>. The fields a PUT overwrites take whatever value the request
  body holds (the body is untyped), so they are \<open>jsval\<close>; the others have their declared
  types, \<open>None\<close> for an optional field that is absent.
\<close>

record Knowledge =
  id' :: string
  title :: jsval
  content :: jsval
  tags :: jsval
  created :: string
  updated :: string
  type' :: jsval
  fileName :: "string option"
  fileSize :: "int option"
  filePath :: "string option"

subsection \<open>The store\<close>

text \<open>
  \<open>KNOWLEDGE_FILE\<close> is missing, or cannot be read as an array (\<open>Corrupt\<close>: the text
  is not JSON, or its value is not an array, so that \<open>JSON.parse\<close> or the call of
  \<open>find\<close>/\<open>findIndex\<close> throws), or holds an array, whose elements are items as the
  declared type \<open>Knowledge[]\<close> says. \<open>uploads\<close> are the names of the files under the
  uploads directory. Creating the directory and writing files are taken to succeed.
\<close>

datatype file_state = Missing | Corrupt | Stored "Knowledge list"

record store =
  knowledge_file :: file_state
  uploads :: "string set"

definition ensureKnowledgeFile :: "store \<Rightarrow> store" where
  "ensureKnowledgeFile fs =
     (case knowledge_file fs of Missing \<Rightarrow> fs\<lparr>knowledge_file := Stored []\<rparr> | _ \<Rightarrow> fs)"

text \<open>\<open>JSON.parse(await fs.readFile(KNOWLEDGE_FILE))\<close>: \<open>None\<close> where it throws.\<close>

definition readKnowledge :: "store \<Rightarrow> Knowledge list option" where
  "readKnowledge fs = (case knowledge_file fs of Stored ks \<Rightarrow> Some ks | _ \<Rightarrow> None)"

subsection \<open>Array and string helpers of the language\<close>

text \<open>\<open>Array.prototype.findIndex\<close>: the first index whose element satisfies \<open>p\<close>;
  \<open>None\<close> stands for \<open>-1\<close>.\<close>

fun findIndex :: "('a \<Rightarrow> bool) \<Rightarrow> 'a list \<Rightarrow> nat option" where
  "findIndex p [] = None"
| "findIndex p (x # xs) =
     (if p x then Some 0 else map_option Suc (findIndex p xs))"

text \<open>\<open>Array.prototype.find\<close>: the first element that satisfies \<open>p\<close>; \<open>None\<close> stands
  for \<open>undefined\<close>.\<close>

fun find_item :: "('a \<Rightarrow> bool) \<Rightarrow> 'a list \<Rightarrow> 'a option" where
  "find_item p [] = None"
| "find_item p (x # xs) = (if p x then Some x else find_item p xs)"

text \<open>\<open>Array.prototype.splice(index, 1)\<close>.\<close>

definition splice1 :: "nat \<Rightarrow> 'a list \<Rightarrow> 'a list" where
  "splice1 i xs = take i xs @ drop (Suc i) xs"

text \<open>\<open>s.split(',')\<close>: the segments between the commas, in order; the empty string
  gives one empty segment.\<close>

fun split_comma :: "string \<Rightarrow> string list" where
  "split_comma [] = [[]]"
| "split_comma (c # cs) =
     (if c = CHR '','' then [] # split_comma cs
      else (c # hd (split_comma cs)) # tl (split_comma cs))"

text \<open>White space and line terminators of the language that are code units below 256:
  TAB, LF, VT, FF, CR, SPACE and NO-BREAK SPACE.\<close>

definition is_space :: "char \<Rightarrow> bool" where
  "is_space c \<longleftrightarrow> c \<in> {CHR 0x09, CHR 0x0A, CHR 0x0B, CHR 0x0C, CHR 0x0D, CHR 0x20, CHR 0xA0}"

text \<open>\<open>String.prototype.trim\<close>.\<close>

definition trim :: "string \<Rightarrow> string" where
  "trim s = rev (dropWhile is_space (rev (dropWhile is_space s)))"

text \<open>\<open>Boolean(t)\<close> for a string \<open>t\<close>: false for the empty string only.\<close>

definition Boolean_str :: "string \<Rightarrow> bool" where
  "Boolean_str t \<longleftrightarrow> t \<noteq> []"

text \<open>Reading a property of a parsed body. A string, a number, a boolean and an array
  have none of the four names the handler reads. Destructuring \<open>null\<close> throws: \<open>PUT\<close>
  checks for it before it reads a property.\<close>

fun get_prop :: "jsval \<Rightarrow> string \<Rightarrow> jsval" where
  "get_prop (JObj kvs) k = (case map_of kvs k of Some v \<Rightarrow> v | None \<Rightarrow> JUndefined)"
| "get_prop _ k = JUndefined"

text \<open>\<open>typeof tags === 'string' ? tags.split(',').map(t => t.trim()).filter(Boolean) : tags\<close>\<close>

fun normalize_tags :: "jsval \<Rightarrow> jsval" where
  "normalize_tags (JStr s) = JArr (map JStr (filter Boolean_str (map trim (split_comma s))))"
| "normalize_tags v = v"

subsection \<open>Responses\<close>

datatype body = ErrorBody string | ItemBody Knowledge | SuccessBody

datatype NextResponse = Json nat body

definition not_found :: NextResponse where
  "not_found = Json 404 (ErrorBody ''Knowledge item not found'')"

subsection \<open>The handlers\<close>

text \<open>Each handler takes the route parameter \<open>id\<close> and the store, and returns the
  response and the store it leaves. A throw anywhere inside \<open>try\<close> ends in the handler's
  \<open>catch\<close>: status 500.\<close>

definition GET :: "string \<Rightarrow> store \<Rightarrow> NextResponse \<times> store" where
  "GET pid fs0 =
     (let fs = ensureKnowledgeFile fs0 in
      case readKnowledge fs of
        None \<Rightarrow> (Json 500 (ErrorBody ''Failed to fetch knowledge item''), fs)
      | Some knowledge \<Rightarrow>
          (case find_item (\<lambda>k. id' k = pid) knowledge of
             None \<Rightarrow> (not_found, fs)
           | Some item \<Rightarrow> (Json 200 (ItemBody item), fs)))"

text \<open>The request body is \<open>None\<close> where \<open>request.json()\<close> throws (the text is not JSON);
  \<open>now\<close> is \<open>new Date().toISOString()\<close>.\<close>

definition PUT :: "jsval option \<Rightarrow> string \<Rightarrow> string \<Rightarrow> store \<Rightarrow> NextResponse \<times> store" where
  "PUT req pid now fs0 =
     (let fs = ensureKnowledgeFile fs0;
          failed = (Json 500 (ErrorBody ''Failed to update knowledge item''), fs) in
      case req of
        None \<Rightarrow> failed
      | Some b \<Rightarrow>
          if b = JNull \<or> b = JUndefined then failed
          else
            (case readKnowledge fs of
               None \<Rightarrow> failed
             | Some knowledge \<Rightarrow>
                 (case findIndex (\<lambda>k. id' k = pid) knowledge of
                    None \<Rightarrow> (not_found, fs)
                  | Some index \<Rightarrow>
                      let item = (knowledge ! index)
                            \<lparr>title := get_prop b ''title'',
                             content := get_prop b ''content'',
                             tags := normalize_tags (get_prop b ''tags''),
                             updated := now,
                             type' := get_prop b ''type''\<rparr>;
                          knowledge' = knowledge[index := item]
                      in (Json 200 (ItemBody (knowledge' ! index)),
                          fs\<lparr>knowledge_file := Stored knowledge'\<rparr>))))"

text \<open>\<open>item.filePath\<close> is truthy when it is present and not the empty string; the
  upload is then unlinked (a failure there is caught and logged only). The name of the
  upload is taken as it stands: \<open>path.join\<close>'s handling of \<open>..\<close> is not modelled.\<close>

definition DELETE :: "string \<Rightarrow> store \<Rightarrow> NextResponse \<times> store" where
  "DELETE pid fs0 =
     (let fs = ensureKnowledgeFile fs0 in
      case readKnowledge fs of
        None \<Rightarrow> (Json 500 (ErrorBody ''Failed to delete knowledge item''), fs)
      | Some knowledge \<Rightarrow>
          (case findIndex (\<lambda>k. id' k = pid) knowledge of
             None \<Rightarrow> (not_found, fs)
           | Some index \<Rightarrow>
               let item = knowledge ! index;
                   ups = (case filePath item of
                            Some p \<Rightarrow> if p \<noteq> [] then uploads fs - {p} else uploads fs
                          | None \<Rightarrow> uploads fs)
               in (Json 200 SuccessBody,
                   fs\<lparr>knowledge_file := Stored (splice1 index knowledge), uploads := ups\<rparr>)))"


text \<open>\<open>Array.prototype.join(',')\<close>, the inverse of \<open>split(',')\<close>: used to say what the
  segments of a string are.\<close>

fun join_comma :: "string list \<Rightarrow> string" where
  "join_comma [] = []"
| "join_comma [x] = x"
| "join_comma (x # y # ys) = x @ CHR '','' # join_comma (y # ys)"


section \<open>The JSON-RPC transport: Request Processor and Batch Coordinator\<close>

text \<open>
  The server that implements the transport is not among the source files. The
  definitions of this section are written from the specification (sections 3, 4.3, 4.4,
  6 and 7), and each says which of its sentences it follows.
\<close>

text \<open>Modelled from the spec: the error taxonomy of section 7; the server's error type
  is missing.\<close>

datatype error_kind =
    InvalidRequest | MethodNotFound | InvalidParams | InternalError
  | SessionNotFound | SessionConflict | NotInitialized

text \<open>Modelled from the spec: the \<open>id\<close> of an envelope, "optional string|number"
  (section 3); the server's type is missing.\<close>

datatype rpc_id = IdStr string | IdNum int

text \<open>Modelled from the spec: the request envelope of section 3, "method: string,
  params: optional structured value, id: optional string|number"; the server's request
  class is missing. An envelope with \<open>env_id = None\<close> is a notification.\<close>

record envelope =
  method' :: string
  params :: "jsval option"
  env_id :: "rpc_id option"

text \<open>Modelled from the spec: an element of the input as received, "each independently
  valid or invalid" (section 3): of the envelope's shape, or malformed; the server's
  parser is missing.\<close>

datatype element = Malformed | Envelope envelope

text \<open>Modelled from the spec: the response envelope of section 3, which "carries either
  a result or an error (never both), and echoes the originating id"; the server's response
  class is missing. The error carries the kind and the detail, where there is one; the id
  is \<open>None\<close> where no id could be read (a malformed element).\<close>

datatype payload = Result jsval | Error error_kind "jsval option"

record Response =
  response_id :: "rpc_id option"
  response_payload :: payload

text \<open>Modelled from the spec: an entry of the method registry of section 6, with "a
  params schema, and an executor function returning (result) | (errorKind, detail)"; the
  server's tool registry is missing. The executor runs against the state \<open>'s\<close> of the
  server and its collaborators (the session's notification queue is part of it), which it
  may change.\<close>

record 's handler =
  schema :: "jsval option \<Rightarrow> bool"
  executor :: "jsval option \<Rightarrow> string \<Rightarrow> 's \<Rightarrow> (error_kind \<times> jsval + jsval) \<times> 's"

type_synonym 's registry = "string \<rightharpoonup> 's handler"

text \<open>Modelled from the spec: "Presence of id distinguishes a request (response
  required) from a notification (fire-and-forget, no response emitted)" (section 3); the
  server's code that builds the reply is missing.\<close>

definition reply :: "envelope \<Rightarrow> payload \<Rightarrow> Response option" where
  "reply env p =
     (case env_id env of
        None \<Rightarrow> None
      | Some i \<Rightarrow> Some \<lparr>response_id = Some i, response_payload = p\<rparr>)"

text \<open>Modelled from the spec: \<open>execute(envelope, sessionId) -> Response | void\<close> of
  section 4.3; the server's request processor is missing. "Unknown method yields error
  kind MethodNotFound; malformed params yield InvalidParams; handler-level failures yield
  InternalError carrying handler-supplied detail. If envelope.id is absent, the call is a
  notification: the handler still executes, but no Response is produced regardless of
  outcome." A bad envelope shape is "detected before dispatch" and answered by "an error
  Response without invoking any handler" (section 7). Of the two policies the spec allows
  for a call before \<open>initialize\<close>, the permissive one is taken: \<open>initialize\<close> is a method
  of the registry like any other.\<close>

definition execute ::
    "'s registry \<Rightarrow> element \<Rightarrow> string \<Rightarrow> 's \<Rightarrow> Response option \<times> 's" where
  "execute reg el sessionId st =
     (case el of
        Malformed \<Rightarrow>
          (Some \<lparr>response_id = None, response_payload = Error InvalidRequest None\<rparr>, st)
      | Envelope env \<Rightarrow>
          (case reg (method' env) of
             None \<Rightarrow> (reply env (Error MethodNotFound None), st)
           | Some h \<Rightarrow>
               if \<not> schema h (params env) then (reply env (Error InvalidParams None), st)
               else
                 (case executor h (params env) sessionId st of
                    (Inr r, st') \<Rightarrow> (reply env (Result r), st')
                  | (Inl (k, detail), st') \<Rightarrow>
                      (reply env (Error InternalError (Some detail)), st'))))"

text \<open>Modelled from the spec: "Each element is dispatched to the Request Processor
  independently ... The output array contains one Response per request-type element, in
  the same relative order as the input's request-type elements" (section 4.4); the
  server's loop over the batch is missing. The elements are run one after the other, in
  the order of the input.\<close>

fun dispatch :: "'s registry \<Rightarrow> element list \<Rightarrow> string \<Rightarrow> 's \<Rightarrow> Response list \<times> 's" where
  "dispatch reg [] sessionId st = ([], st)"
| "dispatch reg (el # els) sessionId st =
     (case execute reg el sessionId st of
        (r, st1) \<Rightarrow>
          (case dispatch reg els sessionId st1 of
             (rs, st2) \<Rightarrow> ((case r of None \<Rightarrow> rs | Some x \<Rightarrow> x # rs), st2)))"

text \<open>Modelled from the spec: \<open>executeBatch(envelopes[], sessionId) -> Response[]\<close> of
  section 4.4; the server's batch coordinator is missing. "Input must be a non-empty
  ordered sequence; an empty array is a protocol error (InvalidRequest)."\<close>

definition executeBatch ::
    "'s registry \<Rightarrow> element list \<Rightarrow> string \<Rightarrow> 's \<Rightarrow> (error_kind + Response list) \<times> 's" where
  "executeBatch reg envelopes sessionId st =
     (if envelopes = [] then (Inl InvalidRequest, st)
      else (case dispatch reg envelopes sessionId st of (rs, st') \<Rightarrow> (Inr rs, st')))"

text \<open>A request-type envelope has an id.\<close>

definition is_request :: "envelope \<Rightarrow> bool" where
  "is_request env \<longleftrightarrow> env_id env \<noteq> None"

section \<open>Example values\<close>

definition item1 :: Knowledge where
  "item1 = \<lparr>id' = ''k1'', title = JStr ''Design'', content = JStr ''Notes'',
       tags = JArr [JStr ''docker''], created = ''2024-01-15'', updated = ''2024-01-15'',
       type' = JStr ''document'', fileName = None, fileSize = None, filePath = None\<rparr>"

definition item2 :: Knowledge where
  "item2 = \<lparr>id' = ''k2'', title = JStr ''Report'', content = JStr ''Body'',
       tags = JArr [], created = ''2024-02-01'', updated = ''2024-02-02'',
       type' = JStr ''file'', fileName = Some ''r.pdf'', fileSize = Some 2048,
       filePath = Some ''1706-r.pdf''\<rparr>"

definition store1 :: store where
  "store1 = \<lparr>knowledge_file = Stored [item1, item2], uploads = {''1706-r.pdf''}\<rparr>"

text \<open>A store whose knowledge file does not exist yet, and one whose file cannot be
  read as an array.\<close>

definition store_missing :: store where
  "store_missing = \<lparr>knowledge_file = Missing, uploads = {}\<rparr>"

definition store_corrupt :: store where
  "store_corrupt = \<lparr>knowledge_file = Corrupt, uploads = {}\<rparr>"

definition body1 :: jsval where
  "body1 = JObj [(''title'', JStr ''Plan''), (''content'', JStr ''Text''),
                 (''tags'', JStr '' a , ,b,''), (''type'', JStr ''note'')]"


text \<open>A registry of two tools over a state that logs the notifications pushed: listing
  the tools, and an echo that needs its parameters, returns them and pushes
  \<open>echo.done\<close>.\<close>

definition tools :: "(string list) registry" where
  "tools =
     [''tools/list'' \<mapsto> \<lparr>schema = (\<lambda>p. True),
                          executor = (\<lambda>p sid st. (Inr (JArr [JStr ''echo'']), st))\<rparr>,
      ''tools/call'' \<mapsto> \<lparr>schema = (\<lambda>p. p \<noteq> None),
                          executor = (\<lambda>p sid st.
                            (case p of None \<Rightarrow> Inl (InvalidParams, JNull) | Some v \<Rightarrow> Inr v,
                             st @ [''echo.done'']))\<rparr>]"

definition batch1 :: "envelope list" where
  "batch1 =
     [\<lparr>method' = ''tools/list'', params = None, env_id = Some (IdStr ''batch-1'')\<rparr>,
      \<lparr>method' = ''tools/call'', params = Some (JNum 1), env_id = None\<rparr>,
      \<lparr>method' = ''tools/call'', params = Some (JNum 2), env_id = Some (IdNum 2)\<rparr>]"

definition notes1 :: "envelope list" where
  "notes1 =
     [\<lparr>method' = ''tools/call'', params = Some (JNum 1), env_id = None\<rparr>,
      \<lparr>method' = ''unknown'', params = None, env_id = None\<rparr>]"


section \<open>Properties of the knowledge item route\<close>

subsection \<open>Finding an item\<close>

lemma findIndex_None_iff: "findIndex p xs = None \<longleftrightarrow> (\<forall>x\<in>set xs. \<not> p x)"
  by (induction xs) auto

lemma find_item_None_iff: "find_item p xs = None \<longleftrightarrow> (\<forall>x\<in>set xs. \<not> p x)"
  by (induction xs) auto

lemma findIndex_Some:
  "findIndex p xs = Some i \<Longrightarrow> i < length xs \<and> p (xs ! i) \<and> (\<forall>j<i. \<not> p (xs ! j))"
proof (induction xs arbitrary: i)
  case Nil
  then show ?case by simp
next
  case (Cons x xs)
  show ?case
  proof (cases "p x")
    case True
    with Cons.prems show ?thesis by simp
  next
    case False
    with Cons.prems obtain k where k: "findIndex p xs = Some k" "i = Suc k"
      by auto
    from Cons.IH [OF k(1)] False k(2) show ?thesis
      by (auto simp: less_Suc_eq_0_disj)
  qed
qed

lemma PUT_success:
  assumes "PUT req pid now fs = (Json 200 bdy, fs')"
  shows "\<exists>b ks i. req = Some b \<and> b \<noteq> JNull \<and> b \<noteq> JUndefined
           \<and> knowledge_file fs = Stored ks
           \<and> findIndex (\<lambda>k. id' k = pid) ks = Some i \<and> i < length ks
           \<and> fs' = fs\<lparr>knowledge_file := Stored (ks[i := (ks ! i)
                  \<lparr>title := get_prop b ''title'',
                   content := get_prop b ''content'',
                   tags := normalize_tags (get_prop b ''tags''),
                   updated := now,
                   type' := get_prop b ''type''\<rparr>])\<rparr>
           \<and> bdy = ItemBody ((ks ! i)
                  \<lparr>title := get_prop b ''title'',
                   content := get_prop b ''content'',
                   tags := normalize_tags (get_prop b ''tags''),
                   updated := now,
                   type' := get_prop b ''type''\<rparr>)"
proof -
  from assms obtain b where b: "req = Some b" "b \<noteq> JNull" "b \<noteq> JUndefined"
    by (cases req) (auto simp: PUT_def Let_def split: if_splits)
  from assms b obtain ks where ks: "knowledge_file fs = Stored ks"
    by (cases "knowledge_file fs")
       (auto simp: PUT_def ensureKnowledgeFile_def readKnowledge_def not_found_def)
  have e: "ensureKnowledgeFile fs = fs" "readKnowledge fs = Some ks"
    using ks by (simp_all add: ensureKnowledgeFile_def readKnowledge_def)
  from assms b obtain i where i: "findIndex (\<lambda>k. id' k = pid) ks = Some i"
    by (cases "findIndex (\<lambda>k. id' k = pid) ks") (auto simp: PUT_def e not_found_def)
  from findIndex_Some [OF i] have lt: "i < length ks" by simp
  from assms show ?thesis
    using b ks i lt by (simp add: PUT_def e Let_def)
qed


subsection \<open>Splitting and trimming\<close>

text \<open>The segments of \<open>split_comma\<close> hold no comma and joined by commas give the string
  back; \<open>trim\<close> takes white space off both ends and nothing else.\<close>

lemma split_comma_not_Nil: "split_comma s \<noteq> []"
  by (induction s) auto

lemma join_split_comma: "join_comma (split_comma s) = s"
proof (induction s)
  case Nil
  show ?case by simp
next
  case (Cons c cs)
  obtain x xs where x: "split_comma cs = x # xs"
    using split_comma_not_Nil [of cs] by (cases "split_comma cs") auto
  with Cons show ?case
    by (cases xs) auto
qed

lemma split_comma_no_comma: "seg \<in> set (split_comma s) \<Longrightarrow> CHR '','' \<notin> set seg"
proof (induction s arbitrary: seg)
  case Nil
  then show ?case by simp
next
  case (Cons c cs)
  obtain x xs where x: "split_comma cs = x # xs"
    using split_comma_not_Nil [of cs] by (cases "split_comma cs") auto
  with Cons show ?case
    by (auto split: if_splits)
qed

lemma trim_decompose:
  "\<exists>l r. s = l @ trim s @ r \<and> (\<forall>c\<in>set l. is_space c) \<and> (\<forall>c\<in>set r. is_space c)"
proof -
  let ?l = "takeWhile is_space s"
  let ?m = "dropWhile is_space s"
  let ?r = "rev (takeWhile is_space (rev ?m))"
  have "?m = trim s @ ?r"
    unfolding trim_def
    by (metis rev_append rev_rev_ident takeWhile_dropWhile_id)
  then have "s = ?l @ trim s @ ?r"
    by (metis takeWhile_dropWhile_id)
  moreover have "\<forall>c\<in>set ?l. is_space c"
    by (auto dest: set_takeWhileD)
  moreover have "\<forall>c\<in>set ?r. is_space c"
    by (auto dest: set_takeWhileD)
  ultimately show ?thesis by blast
qed

lemma trim_ends: "trim s \<noteq> [] \<Longrightarrow> \<not> is_space (hd (trim s)) \<and> \<not> is_space (last (trim s))"
proof -
  assume ne: "trim s \<noteq> []"
  let ?m = "dropWhile is_space s"
  let ?k = "dropWhile is_space (rev ?m)"
  have k: "?k \<noteq> []" using ne by (simp add: trim_def)
  have 1: "\<not> is_space (hd ?k)" using k by (rule hd_dropWhile)
  have m: "?m \<noteq> []"
  proof
    assume a: "?m = []"
    have "?k = []" unfolding a by simp
    with k show False by blast
  qed
  have 2: "\<not> is_space (hd ?m)" using m by (rule hd_dropWhile)
  have "last (trim s) = hd ?k" using k by (simp add: trim_def last_rev)
  moreover have "hd (trim s) = last ?k" using k by (simp add: trim_def hd_rev)
  moreover have "last ?k = last (rev ?m)"
    using k by (metis (no_types) append_is_Nil_conv last_appendR takeWhile_dropWhile_id)
  moreover have "last (rev ?m) = hd ?m" using m by (simp add: last_rev)
  ultimately show ?thesis using 1 2 by simp
qed


subsection \<open>An id that matches no item\<close>

text \<open>
  C8, as amended. Take a GET or a DELETE, or a PUT whose body is JSON text for a value
  other than \<open>null\<close>, and a knowledge file that holds a readable list in which no item
  has the id, or that is missing. The handler answers status 404 with the body
  \<open>{error: "Knowledge item not found"}\<close>. Where the file holds a list, the store is
  left as it was: nothing is written. Where the file is missing, the one write is that
  of \<open>ensureKnowledgeFile\<close>, which creates the file holding the empty list before the
  lookup; the uploads are untouched.
\<close>

theorem not_found_keeps_store:
  assumes "knowledge_file fs = Stored ks \<or> (knowledge_file fs = Missing \<and> ks = [])"
    and "\<forall>k\<in>set ks. id' k \<noteq> pid"
    and "b \<noteq> JNull" and "b \<noteq> JUndefined"
  shows "GET pid fs =
           (Json 404 (ErrorBody ''Knowledge item not found''), fs\<lparr>knowledge_file := Stored ks\<rparr>)
       \<and> PUT (Some b) pid now fs =
           (Json 404 (ErrorBody ''Knowledge item not found''), fs\<lparr>knowledge_file := Stored ks\<rparr>)
       \<and> DELETE pid fs =
           (Json 404 (ErrorBody ''Knowledge item not found''), fs\<lparr>knowledge_file := Stored ks\<rparr>)
       \<and> (knowledge_file fs = Stored ks \<longrightarrow> fs\<lparr>knowledge_file := Stored ks\<rparr> = fs)"
proof -
  have e: "ensureKnowledgeFile fs = fs\<lparr>knowledge_file := Stored ks\<rparr>"
    using assms(1) by (auto simp: ensureKnowledgeFile_def)
  have r: "readKnowledge (fs\<lparr>knowledge_file := Stored ks\<rparr>) = Some ks"
    by (simp add: readKnowledge_def)
  have f: "find_item (\<lambda>k. id' k = pid) ks = None" "findIndex (\<lambda>k. id' k = pid) ks = None"
    using assms(2) by (simp_all add: find_item_None_iff findIndex_None_iff)
  have same: "knowledge_file fs = Stored ks \<longrightarrow> fs\<lparr>knowledge_file := Stored ks\<rparr> = fs"
    by (cases fs) auto
  have g: "GET pid fs =
      (Json 404 (ErrorBody ''Knowledge item not found''), fs\<lparr>knowledge_file := Stored ks\<rparr>)"
    by (simp add: GET_def e r f not_found_def)
  have p: "PUT (Some b) pid now fs =
      (Json 404 (ErrorBody ''Knowledge item not found''), fs\<lparr>knowledge_file := Stored ks\<rparr>)"
    using assms(3,4) by (simp add: PUT_def e r f not_found_def)
  have d: "DELETE pid fs =
      (Json 404 (ErrorBody ''Knowledge item not found''), fs\<lparr>knowledge_file := Stored ks\<rparr>)"
    by (simp add: DELETE_def e r f not_found_def)
  from g p d same show ?thesis by blast
qed

text \<open>The theorem at a store that holds two items, where nothing is written, and at a
  store without a knowledge file, where the file is created.\<close>

theorem not_found_keeps_store_witness:
  "GET ''k9'' store1 = (Json 404 (ErrorBody ''Knowledge item not found''), store1)
   \<and> PUT (Some body1) ''k9'' ''2024-03-01'' store1
       = (Json 404 (ErrorBody ''Knowledge item not found''), store1)
   \<and> DELETE ''k9'' store1 = (Json 404 (ErrorBody ''Knowledge item not found''), store1)
   \<and> GET ''k9'' store_missing
       = (Json 404 (ErrorBody ''Knowledge item not found''),
          \<lparr>knowledge_file = Stored [], uploads = {}\<rparr>)
   \<and> PUT (Some body1) ''k9'' ''2024-03-01'' store_missing
       = (Json 404 (ErrorBody ''Knowledge item not found''),
          \<lparr>knowledge_file = Stored [], uploads = {}\<rparr>)
   \<and> DELETE ''k9'' store_missing
       = (Json 404 (ErrorBody ''Knowledge item not found''),
          \<lparr>knowledge_file = Stored [], uploads = {}\<rparr>)"
proof -
  have 1: "knowledge_file store1 = Stored [item1, item2]
             \<or> (knowledge_file store1 = Missing \<and> [item1, item2] = [])"
    by (simp add: store1_def)
  have 2: "\<forall>k\<in>set [item1, item2]. id' k \<noteq> ''k9''" by (simp add: item1_def item2_def)
  have 3: "body1 \<noteq> JNull" "body1 \<noteq> JUndefined" by (simp_all add: body1_def)
  have s: "store1\<lparr>knowledge_file := Stored [item1, item2]\<rparr> = store1"
    by (simp add: store1_def)
  have 4: "knowledge_file store_missing = Stored []
             \<or> (knowledge_file store_missing = Missing \<and> ([]::Knowledge list) = [])"
    by (simp add: store_missing_def)
  have 5: "\<forall>k\<in>set ([]::Knowledge list). id' k \<noteq> ''k9''" by simp
  have m: "store_missing\<lparr>knowledge_file := Stored []\<rparr>
             = \<lparr>knowledge_file = Stored [], uploads = {}\<rparr>"
    by (simp add: store_missing_def)
  show ?thesis
    using not_found_keeps_store [OF 1 2 3, of "''2024-03-01''"]
      not_found_keeps_store [OF 4 5 3, of "''2024-03-01''"]
    by (simp add: s m)
qed

text \<open>
  C8 as stated covers every call with an id that no stored item has, and says that
  nothing is written. Three calls with the id \<open>k9\<close>, which no item has, show what it
  misses. A PUT whose body is not JSON text fails in \<open>request.json()\<close>, before the list
  is read: status 500. With no knowledge file, the GET answers 404 after
  \<open>ensureKnowledgeFile\<close> has written the file with the empty list: the store has
  changed. With a knowledge file that cannot be read, the GET fails: status 500.
\<close>

theorem not_found_counterexample:
  "find_item (\<lambda>k. id' k = ''k9'') [item1, item2] = None
   \<and> PUT None ''k9'' ''2024-03-01'' store1
       = (Json 500 (ErrorBody ''Failed to update knowledge item''), store1)
   \<and> GET ''k9'' store_missing
       = (Json 404 (ErrorBody ''Knowledge item not found''),
          \<lparr>knowledge_file = Stored [], uploads = {}\<rparr>)
   \<and> \<lparr>knowledge_file = Stored [], uploads = {}\<rparr> \<noteq> store_missing
   \<and> GET ''k9'' store_corrupt
       = (Json 500 (ErrorBody ''Failed to fetch knowledge item''), store_corrupt)"
  by (simp add: PUT_def GET_def ensureKnowledgeFile_def readKnowledge_def not_found_def
      store1_def store_missing_def store_corrupt_def item1_def item2_def)

text \<open>What the unreadable file and the rejected body give, for every id and every
  handler: status 500, with the store as it was.\<close>

lemma corrupt_file_fails:
  assumes "knowledge_file fs = Corrupt"
  shows "GET pid fs = (Json 500 (ErrorBody ''Failed to fetch knowledge item''), fs)"
    and "PUT req pid now fs = (Json 500 (ErrorBody ''Failed to update knowledge item''), fs)"
    and "DELETE pid fs = (Json 500 (ErrorBody ''Failed to delete knowledge item''), fs)"
proof -
  have e: "ensureKnowledgeFile fs = fs" "readKnowledge fs = None"
    using assms by (simp_all add: ensureKnowledgeFile_def readKnowledge_def)
  show "GET pid fs = (Json 500 (ErrorBody ''Failed to fetch knowledge item''), fs)"
    by (simp add: GET_def e)
  show "PUT req pid now fs = (Json 500 (ErrorBody ''Failed to update knowledge item''), fs)"
    by (cases req) (simp_all add: PUT_def e Let_def)
  show "DELETE pid fs = (Json 500 (ErrorBody ''Failed to delete knowledge item''), fs)"
    by (simp add: DELETE_def e)
qed

lemma rejected_body_fails:
  assumes "req = None \<or> req = Some JNull"
  shows "PUT req pid now fs =
           (Json 500 (ErrorBody ''Failed to update knowledge item''), ensureKnowledgeFile fs)"
  using assms by (auto simp: PUT_def)


subsection \<open>What a successful PUT changes\<close>

text \<open>
  C9. After a successful PUT (one answered with status 200; the id is then that of a
  stored item), every stored item but the targeted one (the first with that id) is
  unchanged, and the targeted item keeps its \<open>id\<close>, \<open>created\<close>, \<open>fileName\<close>,
  \<open>fileSize\<close> and \<open>filePath\<close>; its \<open>title\<close>, \<open>content\<close>, \<open>tags\<close>, \<open>type\<close> and
  \<open>updated\<close> are replaced by the values of the body and the time of the call.
\<close>

theorem PUT_frame:
  assumes "PUT req pid now fs = (Json 200 bdy, fs')"
  shows "\<exists>b ks i ks'. req = Some b \<and> knowledge_file fs = Stored ks
           \<and> findIndex (\<lambda>k. id' k = pid) ks = Some i \<and> i < length ks
           \<and> knowledge_file fs' = Stored ks' \<and> uploads fs' = uploads fs
           \<and> length ks' = length ks
           \<and> (\<forall>j<length ks. j \<noteq> i \<longrightarrow> ks' ! j = ks ! j)
           \<and> id' (ks' ! i) = id' (ks ! i)
           \<and> created (ks' ! i) = created (ks ! i)
           \<and> fileName (ks' ! i) = fileName (ks ! i)
           \<and> fileSize (ks' ! i) = fileSize (ks ! i)
           \<and> filePath (ks' ! i) = filePath (ks ! i)
           \<and> title (ks' ! i) = get_prop b ''title''
           \<and> content (ks' ! i) = get_prop b ''content''
           \<and> tags (ks' ! i) = normalize_tags (get_prop b ''tags'')
           \<and> type' (ks' ! i) = get_prop b ''type''
           \<and> updated (ks' ! i) = now
           \<and> bdy = ItemBody (ks' ! i)"
proof -
  from PUT_success [OF assms] obtain b ks i where
    b: "req = Some b" and ks: "knowledge_file fs = Stored ks"
    and i: "findIndex (\<lambda>k. id' k = pid) ks = Some i" and lt: "i < length ks"
    and fs': "fs' = fs\<lparr>knowledge_file := Stored (ks[i := (ks ! i)
                  \<lparr>title := get_prop b ''title'',
                   content := get_prop b ''content'',
                   tags := normalize_tags (get_prop b ''tags''),
                   updated := now,
                   type' := get_prop b ''type''\<rparr>])\<rparr>"
    and bdy: "bdy = ItemBody ((ks ! i)
                  \<lparr>title := get_prop b ''title'',
                   content := get_prop b ''content'',
                   tags := normalize_tags (get_prop b ''tags''),
                   updated := now,
                   type' := get_prop b ''type''\<rparr>)"
    by blast
  show ?thesis
    using b ks i lt by (simp add: fs' bdy)
qed

theorem PUT_frame_witness:
  "\<exists>bdy ks'. PUT (Some body1) ''k2'' ''2024-03-01'' store1
        = (Json 200 bdy, \<lparr>knowledge_file = Stored ks', uploads = {''1706-r.pdf''}\<rparr>)
       \<and> length ks' = 2 \<and> ks' ! 0 = item1
       \<and> id' (ks' ! 1) = ''k2'' \<and> created (ks' ! 1) = ''2024-02-01''
       \<and> fileName (ks' ! 1) = Some ''r.pdf'' \<and> fileSize (ks' ! 1) = Some 2048
       \<and> filePath (ks' ! 1) = Some ''1706-r.pdf''
       \<and> title (ks' ! 1) = JStr ''Plan'' \<and> content (ks' ! 1) = JStr ''Text''
       \<and> type' (ks' ! 1) = JStr ''note'' \<and> updated (ks' ! 1) = ''2024-03-01''"
proof -
  obtain bdy fs' where 2: "PUT (Some body1) ''k2'' ''2024-03-01'' store1 = (Json 200 bdy, fs')"
    by (simp add: PUT_def ensureKnowledgeFile_def readKnowledge_def store1_def
        item1_def item2_def body1_def Let_def)
  from PUT_frame [OF 2] obtain b ks i ks' where
    h: "Some body1 = Some b" "knowledge_file store1 = Stored ks"
      "findIndex (\<lambda>k. id' k = ''k2'') ks = Some i"
      "knowledge_file fs' = Stored ks'" "uploads fs' = uploads store1"
      "length ks' = length ks"
      "\<forall>j<length ks. j \<noteq> i \<longrightarrow> ks' ! j = ks ! j"
      "id' (ks' ! i) = id' (ks ! i)"
      "created (ks' ! i) = created (ks ! i)"
      "fileName (ks' ! i) = fileName (ks ! i)"
      "fileSize (ks' ! i) = fileSize (ks ! i)"
      "filePath (ks' ! i) = filePath (ks ! i)"
      "title (ks' ! i) = get_prop b ''title''"
      "content (ks' ! i) = get_prop b ''content''"
      "type' (ks' ! i) = get_prop b ''type''"
      "updated (ks' ! i) = ''2024-03-01''"
    by blast
  have b: "b = body1" using h(1) by simp
  have ks: "ks = [item1, item2]" using h(2) by (simp add: store1_def)
  have i: "i = 1" using h(3) by (simp add: ks item1_def item2_def)
  have fs': "fs' = \<lparr>knowledge_file = Stored ks', uploads = {''1706-r.pdf''}\<rparr>"
    using h(4,5) by (cases fs') (simp add: store1_def)
  have 0: "ks' ! 0 = item1" using h(7) by (simp add: ks i)
  have p: "get_prop body1 ''title'' = JStr ''Plan''" "get_prop body1 ''content'' = JStr ''Text''"
    "get_prop body1 ''type'' = JStr ''note''"
    by (simp_all add: body1_def)
  have "length ks' = 2 \<and> ks' ! 0 = item1
       \<and> id' (ks' ! 1) = ''k2'' \<and> created (ks' ! 1) = ''2024-02-01''
       \<and> fileName (ks' ! 1) = Some ''r.pdf'' \<and> fileSize (ks' ! 1) = Some 2048
       \<and> filePath (ks' ! 1) = Some ''1706-r.pdf''
       \<and> title (ks' ! 1) = JStr ''Plan'' \<and> content (ks' ! 1) = JStr ''Text''
       \<and> type' (ks' ! 1) = JStr ''note'' \<and> updated (ks' ! 1) = ''2024-03-01''"
    using h(6,8-16) 0 p unfolding b ks i by (simp add: item2_def)
  with 2 fs' show ?thesis by blast
qed

text \<open>
  C10. After a successful PUT whose \<open>tags\<close> is a string, the stored tags are the
  segments of the string between its commas, each trimmed of surrounding white space,
  without the empty ones, in order; a \<open>tags\<close> that is an array is stored as it is.
\<close>

theorem PUT_tags:
  assumes "PUT req pid now fs = (Json 200 bdy, fs')"
  shows "\<exists>b ks i ks'. req = Some b \<and> knowledge_file fs = Stored ks
           \<and> findIndex (\<lambda>k. id' k = pid) ks = Some i
           \<and> knowledge_file fs' = Stored ks'
           \<and> (\<forall>s. get_prop b ''tags'' = JStr s \<longrightarrow>
                 tags (ks' ! i) =
                   JArr (map JStr (filter (\<lambda>t. t \<noteq> []) (map trim (split_comma s)))))
           \<and> (\<forall>xs. get_prop b ''tags'' = JArr xs \<longrightarrow> tags (ks' ! i) = JArr xs)"
proof -
  from PUT_success [OF assms] obtain b ks i where
    b: "req = Some b" and ks: "knowledge_file fs = Stored ks"
    and i: "findIndex (\<lambda>k. id' k = pid) ks = Some i" and lt: "i < length ks"
    and fs': "fs' = fs\<lparr>knowledge_file := Stored (ks[i := (ks ! i)
                  \<lparr>title := get_prop b ''title'',
                   content := get_prop b ''content'',
                   tags := normalize_tags (get_prop b ''tags''),
                   updated := now,
                   type' := get_prop b ''type''\<rparr>])\<rparr>"
    by blast
  show ?thesis
    using b ks i lt by (auto simp: fs' Boolean_str_def [abs_def])
qed

theorem PUT_tags_witness:
  "\<exists>bdy fs' ks'. PUT (Some body1) ''k2'' ''2024-03-01'' store1 = (Json 200 bdy, fs')
       \<and> get_prop body1 ''tags'' = JStr '' a , ,b,''
       \<and> knowledge_file fs' = Stored ks'
       \<and> tags (ks' ! 1) = JArr [JStr ''a'', JStr ''b'']"
proof -
  obtain bdy fs' where 2: "PUT (Some body1) ''k2'' ''2024-03-01'' store1 = (Json 200 bdy, fs')"
    by (simp add: PUT_def ensureKnowledgeFile_def readKnowledge_def store1_def
        item1_def item2_def body1_def Let_def)
  from PUT_tags [OF 2] obtain b ks i ks' where
    h: "Some body1 = Some b" "knowledge_file store1 = Stored ks"
      "findIndex (\<lambda>k. id' k = ''k2'') ks = Some i"
      "knowledge_file fs' = Stored ks'"
      "\<forall>s. get_prop b ''tags'' = JStr s \<longrightarrow>
         tags (ks' ! i) = JArr (map JStr (filter (\<lambda>t. t \<noteq> []) (map trim (split_comma s))))"
    by blast
  have b: "b = body1" using h(1) by simp
  have ks: "ks = [item1, item2]" using h(2) by (simp add: store1_def)
  have i: "i = 1" using h(3) by (simp add: ks item1_def item2_def)
  have t: "get_prop body1 ''tags'' = JStr '' a , ,b,''" by (simp add: body1_def)
  have "tags (ks' ! 1) = JArr [JStr ''a'', JStr ''b'']"
    using h(5) t unfolding b i by (simp add: trim_def is_space_def)
  with 2 t h(4) show ?thesis by blast
qed

section \<open>Properties of the Batch Coordinator\<close>

subsection \<open>One element\<close>

text \<open>For an element of the envelope's shape, \<open>execute\<close> answers exactly when the
  envelope has an id, and with that id.\<close>

lemma execute_Envelope_id:
  "map_option response_id (fst (execute reg (Envelope env) sid st))
     = map_option Some (env_id env)"
  by (cases "env_id env")
     (auto simp: execute_def reply_def split: option.splits prod.splits sum.splits)

lemma execute_notification:
  "env_id env = None \<Longrightarrow> fst (execute reg (Envelope env) sid st) = None"
  using execute_Envelope_id [of reg env sid st] by simp

lemma execute_request:
  "env_id env = Some i \<Longrightarrow>
     \<exists>x. fst (execute reg (Envelope env) sid st) = Some x \<and> response_id x = Some i"
  using execute_Envelope_id [of reg env sid st] by auto

lemma dispatch_ids:
  "map response_id (fst (dispatch reg (map Envelope envs) sid st))
     = map env_id (filter is_request envs)"
proof (induction envs arbitrary: st)
  case Nil
  show ?case by simp
next
  case (Cons e envs)
  obtain r st1 where ex: "execute reg (Envelope e) sid st = (r, st1)"
    by (cases "execute reg (Envelope e) sid st")
  obtain rs st2 where di: "dispatch reg (map Envelope envs) sid st1 = (rs, st2)"
    by (cases "dispatch reg (map Envelope envs) sid st1")
  have ih: "map response_id rs = map env_id (filter is_request envs)"
    using Cons.IH [of st1] di by simp
  show ?case
  proof (cases "env_id e")
    case None
    then have "r = None" using execute_notification [of e reg sid st] ex by simp
    moreover have "\<not> is_request e" using None by (simp add: is_request_def)
    ultimately show ?thesis using ih by (simp add: ex di)
  next
    case (Some i)
    then obtain x where "r = Some x" "response_id x = Some i"
      using execute_request [of e i reg sid st] ex by auto
    moreover have "is_request e" using Some by (simp add: is_request_def)
    ultimately show ?thesis using Some ih by (simp add: ex di)
  qed
qed


subsection \<open>A batch\<close>

text \<open>The two example batches, run: the notifications of each run their handler (the
  state logs \<open>echo.done\<close>) and get no response.\<close>

lemma notes1_run: "executeBatch tools (map Envelope notes1) ''s1'' [] = (Inr [], [''echo.done''])"
  by (simp add: executeBatch_def execute_def reply_def tools_def notes1_def)

lemma batch1_run:
  "executeBatch tools (map Envelope batch1) ''s1'' [] =
     (Inr [\<lparr>response_id = Some (IdStr ''batch-1''),
             response_payload = Result (JArr [JStr ''echo''])\<rparr>,
           \<lparr>response_id = Some (IdNum 2), response_payload = Result (JNum 2)\<rparr>],
      [''echo.done'', ''echo.done''])"
  by (simp add: executeBatch_def execute_def reply_def tools_def batch1_def)


text \<open>
  C1. A batch (a non-empty sequence of envelopes) with N envelopes that have an id and M
  that have none is answered by exactly N responses, whose ids are the ids of the
  envelopes that have one, in the order of the input; an envelope without id adds no
  response.
\<close>

theorem executeBatch_one_response_per_request:
  assumes "envs \<noteq> []"
  shows "\<exists>rs st'. executeBatch reg (map Envelope envs) sid st = (Inr rs, st')
           \<and> length rs = length (filter is_request envs)
           \<and> map response_id rs = map env_id (filter is_request envs)"
proof -
  obtain rs st' where di: "dispatch reg (map Envelope envs) sid st = (rs, st')"
    by (cases "dispatch reg (map Envelope envs) sid st")
  have ids: "map response_id rs = map env_id (filter is_request envs)"
    using dispatch_ids [of reg envs sid st] di by simp
  then have "length (map response_id rs) = length (map env_id (filter is_request envs))"
    by simp
  then have "length rs = length (filter is_request envs)" by simp
  moreover have "executeBatch reg (map Envelope envs) sid st = (Inr rs, st')"
    using assms di by (simp add: executeBatch_def)
  ultimately show ?thesis using ids by blast
qed

theorem executeBatch_one_response_per_request_witness:
  "batch1 \<noteq> [] \<and> length (filter is_request batch1) = 2
   \<and> length (filter (\<lambda>e. \<not> is_request e) batch1) = 1
   \<and> (\<exists>rs st'. executeBatch tools (map Envelope batch1) ''s1'' [] = (Inr rs, st')
          \<and> length rs = 2
          \<and> map response_id rs = [Some (IdStr ''batch-1''), Some (IdNum 2)])"
proof -
  have ne: "batch1 \<noteq> []" by (simp add: batch1_def)
  have f: "filter is_request batch1 =
      [\<lparr>method' = ''tools/list'', params = None, env_id = Some (IdStr ''batch-1'')\<rparr>,
       \<lparr>method' = ''tools/call'', params = Some (JNum 2), env_id = Some (IdNum 2)\<rparr>]"
    by (simp add: batch1_def is_request_def)
  have g: "length (filter (\<lambda>e. \<not> is_request e) batch1) = 1"
    by (simp add: batch1_def is_request_def)
  show ?thesis
    using executeBatch_one_response_per_request [OF ne, of tools "''s1''" "[]"] ne g
    by (auto simp: f)
qed


text \<open>
  C2. The empty batch fails with \<open>InvalidRequest\<close> (and runs nothing); a non-empty batch
  of envelopes that all lack an id succeeds with the empty list of responses.
\<close>

theorem executeBatch_empty_or_notifications:
  "executeBatch reg [] sid st = (Inl InvalidRequest, st)
   \<and> (envs \<noteq> [] \<and> (\<forall>e\<in>set envs. env_id e = None) \<longrightarrow>
        fst (executeBatch reg (map Envelope envs) sid st) = Inr [])"
proof -
  have "fst (executeBatch reg (map Envelope envs) sid st) = Inr []"
    if ne: "envs \<noteq> []" and no: "\<forall>e\<in>set envs. env_id e = None"
  proof -
    have "filter is_request envs = []"
      using no by (simp add: is_request_def)
    then have "map response_id (fst (dispatch reg (map Envelope envs) sid st)) = []"
      using dispatch_ids [of reg envs sid st] by simp
    then have "fst (dispatch reg (map Envelope envs) sid st) = []" by simp
    with ne show ?thesis
      by (cases "dispatch reg (map Envelope envs) sid st") (simp add: executeBatch_def)
  qed
  then show ?thesis by (simp add: executeBatch_def)
qed

theorem executeBatch_empty_or_notifications_witness:
  "executeBatch tools [] ''s1'' [] = (Inl InvalidRequest, [])
   \<and> notes1 \<noteq> [] \<and> list_all (\<lambda>e. env_id e = None) notes1
   \<and> fst (executeBatch tools (map Envelope notes1) ''s1'' []) = Inr []"
proof -
  have 1: "notes1 \<noteq> []" by (simp add: notes1_def)
  have 2: "\<forall>e\<in>set notes1. env_id e = None" by (simp add: notes1_def)
  have 3: "list_all (\<lambda>e. env_id e = None) notes1" by (simp add: notes1_def)
  show ?thesis
    using executeBatch_empty_or_notifications [of tools "''s1''" "[]" notes1] 1 2 3
    by simp
qed

end
